theory Spec2Isabelle
  imports Complex_Main
begin

section \<open>Data model\<close>

text \<open>
  The Python exceptions that \<^verbatim>\<open>geometry.py\<close> can raise. The module has no
  \<^verbatim>\<open>raise\<close> statement of its own: every failure is a built-in exception of
  an indexing, an arithmetic operation or a read of an unassigned local.
\<close>

datatype error = ZeroDivisionError | OverflowError | IndexError | TypeError | UnboundLocalError

text \<open>
  A land-use value as it arrives from an attribute slot: absent (\<^verbatim>\<open>None\<close>), an
  integer code or a categorical (string) code.
\<close>

datatype pyval = PyNone | PyInt int | PyStr string

text \<open>
  A sample is the 4-tuple \<^verbatim>\<open>(x, y, z, landuse)\<close> built in
  \<^verbatim>\<open>_get_matrix\<close>. Coordinates are Python floats, modelled as reals: the rounding of
  a result inside the float range is not modelled. The two effects of the range that decide
  whether \<^verbatim>\<open>_dot_product\<close> raises are modelled where they occur (\<open>float_sq\<close>,
  \<open>float_mul\<close> below). The matrix is a list of rows, each a list of samples.
\<close>

type_synonym sample = "real \<times> real \<times> real \<times> pyval"
type_synonym matrix = "sample list list"
type_synonym vert = "real \<times> real \<times> real"
type_synonym face = "nat \<times> nat \<times> nat"

text \<open>
  A feature of the sampling layer: \<^verbatim>\<open>f.geometry().get()\<close> is a point with
  \<^verbatim>\<open>x()\<close>, \<^verbatim>\<open>y()\<close>, \<^verbatim>\<open>z()\<close>, and \<^verbatim>\<open>f.attributes()\<close> is a list.
\<close>

record feature =
  gx :: real
  gy :: real
  gz :: real
  attributes :: "pyval list"

text \<open>
  \<^verbatim>\<open>layer.getFeatures()\<close> belongs to the host (QGIS), not to this repository, and
  \<^verbatim>\<open>_get_matrix\<close> runs two \<^verbatim>\<open>for\<close> loops over the one object it returns.
  What the second loop sees depends on that object, so the layer carries it as a
  parameter: \<open>OnePass\<close> is an iterator (QGIS's feature iterator: the second loop
  resumes after the feature at which the first loop stopped), \<open>Restartable\<close> is a
  sequence that every \<^verbatim>\<open>for\<close> walks from its start.
\<close>

datatype iteration = OnePass | Restartable

record layer =
  getFeatures :: "feature list"
  iteration :: iteration

text \<open>The progress collaborator: the step shown, the messages pushed, and the answers
  its successive \<^verbatim>\<open>isCanceled()\<close> polls will give (not canceled once they run out).\<close>

record feedback =
  current_step :: nat
  info :: "string list"
  cancel_polls :: "bool list"

text \<open>What \<^verbatim>\<open>get_geometry\<close> returns: the empty dict, or the 4-tuple.\<close>

datatype geometry_result =
  EmptyDict
  | Geometry "vert list" "face list" "pyval list" "pyval set"

section \<open>Exceptions as values\<close>

definition and_then :: "error + 'a \<Rightarrow> ('a \<Rightarrow> error + 'b) \<Rightarrow> error + 'b" where
  "and_then r f = (case r of Inl e \<Rightarrow> Inl e | Inr v \<Rightarrow> f v)"

text \<open>A comprehension whose element expression may raise: the first failure wins.\<close>

fun map_err :: "('a \<Rightarrow> error + 'b) \<Rightarrow> 'a list \<Rightarrow> error + 'b list" where
  "map_err f [] = Inr []"
| "map_err f (x # xs) =
     (case f x of Inl e \<Rightarrow> Inl e
      | Inr y \<Rightarrow> (case map_err f xs of Inl e \<Rightarrow> Inl e | Inr ys \<Rightarrow> Inr (y # ys)))"

section \<open>Grid Reshaper: \<^verbatim>\<open>_get_matrix\<close>\<close>

text \<open>
  \<^verbatim>\<open>x ** 2\<close> on a float: Python raises \<^verbatim>\<open>OverflowError\<close> when the square rounds
  beyond the largest double (from \<open>2^1024 - 2^970\<close> on), and returns \<^verbatim>\<open>0.0\<close> when it
  rounds to zero (up to \<open>2^-1075\<close>, half the smallest positive double).
\<close>

definition float_sq :: "real \<Rightarrow> error + real" where
  "float_sq x =
     (if 2 ^ 1024 - 2 ^ 970 \<le> x ^ 2 then Inl OverflowError
      else if x ^ 2 \<le> 1 / 2 ^ 1075 then Inr 0
      else Inr (x ^ 2))"

text \<open>\<^verbatim>\<open>a * b\<close> on floats: a product that rounds to zero is \<^verbatim>\<open>0.0\<close>. (A product beyond
  the range is \<^verbatim>\<open>inf\<close>, not an exception; infinities are not modelled.)\<close>

definition float_mul :: "real \<Rightarrow> real \<Rightarrow> real" where
  "float_mul a b = (if \<bar>a * b\<bar> \<le> 1 / 2 ^ 1075 then 0 else a * b)"

definition norm_vec :: "real \<times> real \<Rightarrow> error + real" where
  "norm_vec vector =
     (case float_sq (fst vector) of
        Inl e \<Rightarrow> Inl e
      | Inr a \<Rightarrow>
          (case float_sq (snd vector) of
             Inl e \<Rightarrow> Inl e
           | Inr b \<Rightarrow> Inr (sqrt (a + b))))"

text \<open>Python's float division raises \<^verbatim>\<open>ZeroDivisionError\<close> on a zero divisor. The
  numerator is evaluated first, then \<^verbatim>\<open>_norm(v0)\<close>, then \<^verbatim>\<open>_norm(v1)\<close>.\<close>

definition dot_product :: "real \<times> real \<Rightarrow> real \<times> real \<Rightarrow> real \<times> real \<Rightarrow> error + real" where
  "dot_product p0 p1 p2 =
     (let v0 = (fst p1 - fst p0, snd p1 - snd p0);
          v1 = (fst p2 - fst p0, snd p2 - snd p0);
          numerator = float_mul (fst v0) (fst v1) + float_mul (snd v0) (snd v1)
      in case norm_vec v0 of
           Inl e \<Rightarrow> Inl e
         | Inr n0 \<Rightarrow>
             (case norm_vec v1 of
                Inl e \<Rightarrow> Inl e
              | Inr n1 \<Rightarrow>
                  if float_mul n0 n1 = 0 then Inl ZeroDivisionError
                  else Inr (numerator / float_mul n0 n1)))"

text \<open>
  The first loop of \<^verbatim>\<open>_get_matrix\<close>. It returns \<^verbatim>\<open>column_len\<close> (\<open>None\<close> while
  the local is unassigned) and the features it has not consumed: on \<^verbatim>\<open>break\<close> the
  feature that failed the test has already been taken from the iterator.
\<close>

fun scan_column_len ::
  "real \<times> real \<Rightarrow> (real \<times> real) option \<Rightarrow> (real \<times> real) option \<Rightarrow> nat option
     \<Rightarrow> feature list \<Rightarrow> error + (nat option \<times> feature list)" where
  "scan_column_len origin first_point second_point column_len [] = Inr (column_len, [])"
| "scan_column_len origin first_point second_point column_len (f # features) =
     (let point = (gx f - fst origin, gy f - snd origin) in
      case first_point of
        None \<Rightarrow> scan_column_len origin (Some point) second_point (Some 1) features
      | Some fp \<Rightarrow>
          (case second_point of
             None \<Rightarrow> scan_column_len origin first_point (Some point) (Some 2) features
           | Some sp \<Rightarrow>
               (case dot_product fp sp point of
                  Inl e \<Rightarrow> Inl e
                | Inr d \<Rightarrow>
                    if \<bar>d\<bar> > 1 / 10
                    then scan_column_len origin first_point second_point
                           (map_option Suc column_len) features
                    else Inr (column_len, features))))"

fun truthy :: "pyval \<Rightarrow> bool" where
  "truthy PyNone = False"
| "truthy (PyInt n) = (n \<noteq> 0)"
| "truthy (PyStr s) = (s \<noteq> [])"

text \<open>\<^verbatim>\<open>a[5] or 0\<close>\<close>

definition landuse_of :: "pyval list \<Rightarrow> error + pyval" where
  "landuse_of a =
     (if length a \<le> 5 then Inl IndexError
      else Inr (if truthy (a ! 5) then a ! 5 else PyInt 0))"

text \<open>
  The second loop of \<^verbatim>\<open>_get_matrix\<close>, with its counter \<^verbatim>\<open>i\<close> and its list of
  columns \<^verbatim>\<open>m\<close>. The branch \<^verbatim>\<open>i == column_len\<close> resets the counter and stores nothing.
\<close>

fun split_columns ::
  "real \<times> real \<Rightarrow> nat option \<Rightarrow> nat \<Rightarrow> sample list list \<Rightarrow> feature list
     \<Rightarrow> error + sample list list" where
  "split_columns origin column_len i m [] = Inr m"
| "split_columns origin column_len i m (f # features) =
     (case landuse_of (attributes f) of
        Inl e \<Rightarrow> Inl e
      | Inr lu \<Rightarrow>
          (let point = (gx f - fst origin, gy f - snd origin, gz f, lu) in
           if Suc i = 1 then split_columns origin column_len (Suc i) (m @ [[point]]) features
           else (case column_len of
                   None \<Rightarrow> Inl UnboundLocalError
                 | Some c \<Rightarrow>
                     if Suc i = c then split_columns origin column_len 0 m features
                     else if m = [] then Inl IndexError
                     else split_columns origin column_len (Suc i)
                            (butlast m @ [last m @ [point]]) features)))"

text \<open>\<^verbatim>\<open>list(map(list, zip(*m)))\<close>: as many rows as the shortest column has entries.\<close>

definition zip_star :: "'a list list \<Rightarrow> 'a list list" where
  "zip_star m =
     (case m of
        [] \<Rightarrow> []
      | c # cs \<Rightarrow> map (\<lambda>k. map (\<lambda>col. col ! k) m) [0..<fold min (map length cs) (length c)])"

definition get_matrix :: "layer \<Rightarrow> real \<times> real \<Rightarrow> error + matrix" where
  "get_matrix layer utm_origin =
     (case scan_column_len utm_origin None None None (getFeatures layer) of
        Inl e \<Rightarrow> Inl e
      | Inr (column_len, rest) \<Rightarrow>
          (case split_columns utm_origin column_len 0 []
                  (case iteration layer of OnePass \<Rightarrow> rest | Restartable \<Rightarrow> getFeatures layer) of
             Inl e \<Rightarrow> Inl e
           | Inr m \<Rightarrow> Inr (zip_star m)))"

section \<open>Face Builder: \<^verbatim>\<open>_get_faces\<close>\<close>

definition get_vert_index :: "nat \<Rightarrow> nat \<Rightarrow> nat \<Rightarrow> nat" where
  "get_vert_index i j len_vrow = i * len_vrow + j + 1"

definition get_f1 :: "nat \<Rightarrow> nat \<Rightarrow> nat \<Rightarrow> face" where
  "get_f1 i j len_vrow =
     (get_vert_index i j len_vrow,
      get_vert_index (i + 1) j len_vrow,
      get_vert_index i (j + 1) len_vrow)"

definition get_f2 :: "nat \<Rightarrow> nat \<Rightarrow> nat \<Rightarrow> face" where
  "get_f2 i j len_vrow =
     (get_vert_index (i + 1) (j + 1) len_vrow,
      get_vert_index i (j + 1) len_vrow,
      get_vert_index (i + 1) j len_vrow)"

text \<open>\<^verbatim>\<open>p[3]\<close>\<close>

definition landuse :: "sample \<Rightarrow> pyval" where
  "landuse p = snd (snd (snd p))"

text \<open>The inner loop over the cells of row \<open>i\<close>, from column \<open>j\<close> on.\<close>

fun faces_of_row ::
  "nat \<Rightarrow> nat \<Rightarrow> nat \<Rightarrow> sample list \<Rightarrow> face list \<times> pyval list \<Rightarrow> face list \<times> pyval list" where
  "faces_of_row i j len_vrow [] acc = acc"
| "faces_of_row i j len_vrow (p # row) acc =
     faces_of_row i (Suc j) len_vrow row
       (fst acc @ [get_f1 i j len_vrow, get_f2 i j len_vrow], snd acc @ [landuse p, landuse p])"

text \<open>The outer loop over the rows, from row \<open>i\<close> on.\<close>

fun faces_of_rows ::
  "nat \<Rightarrow> nat \<Rightarrow> matrix \<Rightarrow> face list \<times> pyval list \<Rightarrow> face list \<times> pyval list" where
  "faces_of_rows i len_vrow [] acc = acc"
| "faces_of_rows i len_vrow (row # rows) acc =
     faces_of_rows (Suc i) len_vrow rows (faces_of_row i 0 len_vrow row acc)"

definition get_faces :: "matrix \<Rightarrow> error + (face list \<times> pyval list)" where
  "get_faces matrix =
     (case matrix of
        [] \<Rightarrow> Inl IndexError
      | row0 # _ \<Rightarrow> Inr (faces_of_rows 0 (length row0 + 1) matrix ([], [])))"

section \<open>Vertex Reconstructor: \<^verbatim>\<open>_inject_ghost_centers\<close>, \<^verbatim>\<open>_get_verts\<close>\<close>

text \<open>Python's \<^verbatim>\<open>-\<close> and \<^verbatim>\<open>+\<close> on land-use values: integers subtract and add,
  strings concatenate, everything else is a \<^verbatim>\<open>TypeError\<close>.\<close>

fun py_sub :: "pyval \<Rightarrow> pyval \<Rightarrow> error + pyval" where
  "py_sub (PyInt a) (PyInt b) = Inr (PyInt (a - b))"
| "py_sub _ _ = Inl TypeError"

fun py_add :: "pyval \<Rightarrow> pyval \<Rightarrow> error + pyval" where
  "py_add (PyInt a) (PyInt b) = Inr (PyInt (a + b))"
| "py_add (PyStr a) (PyStr b) = Inr (PyStr (a @ b))"
| "py_add _ _ = Inl TypeError"

text \<open>\<^verbatim>\<open>map(fsub, zip(a, b))\<close> and \<^verbatim>\<open>map(fadd, zip(a, b))\<close> on two 4-tuples:
  all four components, the land-use included.\<close>

fun map_fsub :: "sample \<Rightarrow> sample \<Rightarrow> error + sample" where
  "map_fsub (x1, y1, z1, l1) (x2, y2, z2, l2) =
     (case py_sub l1 l2 of Inl e \<Rightarrow> Inl e | Inr l \<Rightarrow> Inr (x1 - x2, y1 - y2, z1 - z2, l))"

fun map_fadd :: "sample \<Rightarrow> sample \<Rightarrow> error + sample" where
  "map_fadd (x1, y1, z1, l1) (x2, y2, z2, l2) =
     (case py_add l1 l2 of Inl e \<Rightarrow> Inl e | Inr l \<Rightarrow> Inr (x1 + x2, y1 + y2, z1 + z2, l))"

text \<open>\<^verbatim>\<open>d[2] = 0.0\<close>\<close>

fun zero_z :: "sample \<Rightarrow> sample" where
  "zero_z (x, y, z, l) = (x, y, 0, l)"

text \<open>The body of the loop over the rows: a ghost entry in front, one at the end.\<close>

definition ghost_cols :: "sample \<Rightarrow> sample list \<Rightarrow> error + sample list" where
  "ghost_cols dx row =
     (if row = [] then Inl IndexError
      else and_then (map_fsub (row ! 0) dx) (\<lambda>gc0.
           let row1 = gc0 # row in
           and_then (map_fadd (last row1) dx) (\<lambda>gc1. Inr (row1 @ [gc1]))))"

text \<open>
  \<^verbatim>\<open>_inject_ghost_centers\<close> changes its argument in place and returns nothing; the
  model returns the matrix as the caller holds it afterwards. The rows are taken to be
  distinct list objects, as those built by \<^verbatim>\<open>_get_matrix\<close> are.
\<close>

definition inject_ghost_centers :: "matrix \<Rightarrow> error + matrix" where
  "inject_ghost_centers matrix =
     (if length matrix < 1 \<or> length (matrix ! 0) < 2 then Inl IndexError
      else and_then (map_fsub (matrix ! 0 ! 1) (matrix ! 0 ! 0)) (\<lambda>dx0.
        if length matrix < 2 \<or> length (matrix ! 1) < 1 then Inl IndexError
        else and_then (map_fsub (matrix ! 1 ! 0) (matrix ! 0 ! 0)) (\<lambda>dy0.
          let dx = zero_z dx0; dy = zero_z dy0 in
          and_then (map_err (\<lambda>c. map_fsub c dy) (matrix ! 0)) (\<lambda>row.
            let matrix1 = row # matrix in
            and_then (map_err (\<lambda>c. map_fadd c dy) (last matrix1)) (\<lambda>row.
              let matrix2 = matrix1 @ [row] in
              map_err (ghost_cols dx) matrix2)))))"

text \<open>\<^verbatim>\<open>p[:-1]\<close>: the position of a center, its land-use removed.\<close>

fun position :: "sample \<Rightarrow> vert" where
  "position (x, y, z, l) = (x, y, z)"

definition get_neighbour_centers ::
  "sample list \<Rightarrow> sample list \<Rightarrow> nat \<Rightarrow> error + (vert \<times> vert \<times> vert \<times> vert)" where
  "get_neighbour_centers prev_row row j =
     (if length prev_row \<le> j + 1 \<or> length row \<le> j + 1 then Inl IndexError
      else Inr (position (prev_row ! j), position (prev_row ! (j + 1)),
                position (row ! j), position (row ! (j + 1))))"

text \<open>\<^verbatim>\<open>sum(l) / len(l)\<close>; its one caller passes the four values of a coordinate.\<close>

definition avg :: "real list \<Rightarrow> real" where
  "avg l = sum_list l / real (length l)"

fun get_vert :: "vert \<times> vert \<times> vert \<times> vert \<Rightarrow> vert" where
  "get_vert ((x0, y0, z0), (x1, y1, z1), (x2, y2, z2), (x3, y3, z3)) =
     (avg [x0, x1, x2, x3], avg [y0, y1, y2, y3], avg [z0, z1, z2, z3])"

text \<open>The inner loop of \<^verbatim>\<open>_get_verts\<close> over the indices \<open>j\<close> of \<^verbatim>\<open>row[:-1]\<close>.\<close>

fun verts_of_row :: "sample list \<Rightarrow> sample list \<Rightarrow> nat list \<Rightarrow> vert list \<Rightarrow> error + vert list" where
  "verts_of_row prev_row row [] verts = Inr verts"
| "verts_of_row prev_row row (j # js) verts =
     (case get_neighbour_centers prev_row row j of
        Inl e \<Rightarrow> Inl e
      | Inr ncs \<Rightarrow> verts_of_row prev_row row js (verts @ [get_vert ncs]))"

text \<open>The outer loop over \<^verbatim>\<open>matrix[1:]\<close>, carrying \<^verbatim>\<open>prev_row\<close>.\<close>

fun verts_of_rows :: "sample list \<Rightarrow> matrix \<Rightarrow> vert list \<Rightarrow> error + vert list" where
  "verts_of_rows prev_row [] verts = Inr verts"
| "verts_of_rows prev_row (row # rows) verts =
     (case verts_of_row prev_row row [0..<length (butlast row)] verts of
        Inl e \<Rightarrow> Inl e
      | Inr verts' \<Rightarrow> verts_of_rows row rows verts')"

text \<open>\<^verbatim>\<open>_get_verts\<close> returns the vertices; the second component is the caller's matrix
  after the call, which \<^verbatim>\<open>_inject_ghost_centers\<close> has changed in place.\<close>

definition get_verts :: "matrix \<Rightarrow> error + (vert list \<times> matrix)" where
  "get_verts matrix =
     and_then (inject_ghost_centers matrix) (\<lambda>padded.
       case padded of
         [] \<Rightarrow> Inl IndexError
       | prev_row # rows \<Rightarrow>
           and_then (verts_of_rows prev_row rows []) (\<lambda>verts. Inr (verts, padded)))"

section \<open>The pipeline: \<^verbatim>\<open>get_geometry\<close>\<close>

definition setCurrentStep :: "nat \<Rightarrow> feedback \<Rightarrow> feedback" where
  "setCurrentStep n fb = fb\<lparr>current_step := n\<rparr>"

definition pushInfo :: "string \<Rightarrow> feedback \<Rightarrow> feedback" where
  "pushInfo s fb = fb\<lparr>info := info fb @ [s]\<rparr>"

definition isCanceled :: "feedback \<Rightarrow> bool \<times> feedback" where
  "isCanceled fb =
     (case cancel_polls fb of
        [] \<Rightarrow> (False, fb)
      | b # bs \<Rightarrow> (b, fb\<lparr>cancel_polls := bs\<rparr>))"

definition get_geometry ::
  "feedback \<Rightarrow> layer \<Rightarrow> real \<times> real \<Rightarrow> error + (geometry_result \<times> feedback)" where
  "get_geometry feedback layer utm_origin =
     (let fb1 = pushInfo ''Geometry: building the point matrix...'' (setCurrentStep 8 feedback) in
      and_then (get_matrix layer utm_origin) (\<lambda>matrix.
        let (canceled1, fb2) = isCanceled fb1 in
        if canceled1 then Inr (EmptyDict, fb2)
        else
          let fb3 = pushInfo ''Geometry: getting quad faces...'' (setCurrentStep 9 fb2) in
          and_then (get_faces matrix) (\<lambda>(faces, landuses).
            let (canceled2, fb4) = isCanceled fb3 in
            if canceled2 then Inr (EmptyDict, fb4)
            else
              let fb5 = pushInfo ''Geometry: getting verts...'' (setCurrentStep 10 fb4);
                  landuses_set = set landuses
              in and_then (get_verts matrix) (\<lambda>(verts, padded).
                   Inr (Geometry verts faces landuses landuses_set, setCurrentStep 11 fb5)))))"

section \<open>The specification's wording of the Vertex Reconstructor\<close>



section \<open>Coordinates on which float arithmetic is exact or in range\<close>

text \<open>A coordinate of moderate size: the square of a difference of differences of such
  values stays inside the float range.\<close>

definition moderate :: "real \<Rightarrow> bool" where
  "moderate x = (\<bar>x\<bar> \<le> 10 ^ 150)"


section \<open>Concrete inputs\<close>

text \<open>A grid of one row and two cells.\<close>

definition grid_1x2 :: matrix where
  "grid_1x2 = [[(0, 0, 5, PyInt 3), (1, 0, 6, PyStr ''B'')]]"


text \<open>The grid of the specification's concrete scenario: two rows of two cells, centers at
  \<open>(0,0)\<close>, \<open>(1,0)\<close> and \<open>(0,1)\<close>, \<open>(1,1)\<close>, elevation \<open>0\<close>, every cell with land-use \<open>l\<close>.\<close>

definition grid_2x2 :: "pyval \<Rightarrow> matrix" where
  "grid_2x2 l = [[(0, 0, 0, l), (1, 0, 0, l)], [(0, 1, 0, l), (1, 1, 0, l)]]"


text \<open>A feature at \<open>(x, y, z)\<close> whose attribute slot 5 holds \<open>l\<close>.\<close>

definition sample_feature :: "real \<Rightarrow> real \<Rightarrow> real \<Rightarrow> pyval \<Rightarrow> feature" where
  "sample_feature x y z l =
     \<lparr>gx = x, gy = y, gz = z, attributes = [PyNone, PyNone, PyNone, PyNone, PyNone, l]\<rparr>"

text \<open>A stream of three columns of three points each, column after column, on the unit
  lattice; every sample has its own elevation and land-use.\<close>

definition stream_3x3 :: "feature list" where
  "stream_3x3 =
     [sample_feature 0 0 10 (PyInt 1), sample_feature 0 1 11 (PyInt 2), sample_feature 0 2 12 (PyInt 3),
      sample_feature 1 0 20 (PyInt 4), sample_feature 1 1 21 (PyInt 5), sample_feature 1 2 22 (PyInt 6),
      sample_feature 2 0 30 (PyInt 7), sample_feature 2 1 31 (PyInt 8), sample_feature 2 2 32 (PyInt 9)]"

text \<open>The same nine points at elevation \<open>0\<close>, every sample with \<open>l\<close> in slot 5.\<close>

definition stream_coded :: "pyval \<Rightarrow> feature list" where
  "stream_coded l =
     [sample_feature 0 0 0 l, sample_feature 0 1 0 l, sample_feature 0 2 0 l,
      sample_feature 1 0 0 l, sample_feature 1 1 0 l, sample_feature 1 2 0 l,
      sample_feature 2 0 0 l, sample_feature 2 1 0 l, sample_feature 2 2 0 l]"


text \<open>The column-major flattening of a grid, as a stream of features.\<close>

definition reserialize :: "matrix \<Rightarrow> feature list" where
  "reserialize grid = map (\<lambda>(x, y, z, l). sample_feature x y z l) (concat (zip_star grid))"

section \<open>Lists cut into pieces of one length\<close>

lemma nth_concat_uniform:
  "\<forall>xs\<in>set xss. length xs = n \<Longrightarrow> i < length xss \<Longrightarrow> j < n
     \<Longrightarrow> concat xss ! (i * n + j) = xss ! i ! j"
proof (induction xss arbitrary: i)
  case Nil
  then show ?case by simp
next
  case (Cons xs xss)
  show ?case
  proof (cases i)
    case 0
    with Cons.prems show ?thesis by (simp add: nth_append)
  next
    case (Suc k)
    with Cons.prems have "concat xss ! (k * n + j) = xss ! k ! j"
      by (intro Cons.IH) auto
    moreover have "length xs = n" using Cons.prems by simp
    ultimately show ?thesis using Suc by (simp add: nth_append)
  qed
qed

lemma length_concat_uniform:
  "\<forall>xs\<in>set xss. length xs = n \<Longrightarrow> length (concat xss) = length xss * n"
  by (induction xss) auto


section \<open>Face Builder\<close>

lemma faces_of_row_eq:
  "faces_of_row i j l row acc =
     (fst acc @ concat (map (\<lambda>k. [get_f1 i (j + k) l, get_f2 i (j + k) l]) [0..<length row]),
      snd acc @ concat (map (\<lambda>p. [landuse p, landuse p]) row))"
  by (induction row arbitrary: j acc) (simp_all add: map_upt_Suc del: upt_Suc)

lemma faces_of_rows_eq:
  "\<forall>row\<in>set rows. length row = C \<Longrightarrow>
   faces_of_rows i l rows acc =
     (fst acc @ concat (map (\<lambda>r. concat (map (\<lambda>k. [get_f1 (i + r) k l, get_f2 (i + r) k l]) [0..<C]))
                          [0..<length rows]),
      snd acc @ concat (map (\<lambda>row. concat (map (\<lambda>p. [landuse p, landuse p]) row)) rows))"
  by (induction rows arbitrary: i acc) (simp_all add: faces_of_row_eq map_upt_Suc del: upt_Suc)


lemma vert_index_bound:
  "i \<le> R \<Longrightarrow> j \<le> C \<Longrightarrow> get_vert_index i j (C + 1) \<le> (R + 1) * (C + 1)"
proof -
  assume a: "i \<le> R" "j \<le> C"
  have "i * (C + 1) \<le> R * (C + 1)" using a by (intro mult_le_mono1)
  then show ?thesis using a by (simp add: get_vert_index_def)
qed

text \<open>
  Claim C1. For every rectangular grid of \<open>R \<ge> 1\<close> rows and \<open>C \<ge> 1\<close> columns the Face
  Builder returns \<open>2 * R * C\<close> triangles and as many land-use tags, in row-major cell order:
  cell \<open>(i, j)\<close> gives, at positions \<open>2 * (i * C + j)\<close> and the next one, the triangle with
  corners \<open>(i, j)\<close>, \<open>(i + 1, j)\<close>, \<open>(i, j + 1)\<close> and the triangle with corners
  \<open>(i + 1, j + 1)\<close>, \<open>(i, j + 1)\<close>, \<open>(i + 1, j)\<close>, a corner \<open>(r, c)\<close> being the 1-based index
  \<open>r * (C + 1) + c + 1\<close>; both carry the land-use of cell \<open>(i, j)\<close>; and every vertex index
  lies between \<open>1\<close> and \<open>(R + 1) * (C + 1)\<close>.
\<close>

theorem get_faces_rectangular:
  assumes "1 \<le> R" and "1 \<le> C" and "length matrix = R"
    and "\<forall>row\<in>set matrix. length row = C"
  shows "\<exists>faces landuses.
      get_faces matrix = Inr (faces, landuses)
    \<and> length faces = 2 * R * C \<and> length landuses = length faces
    \<and> (\<forall>i<R. \<forall>j<C.
          faces ! (2 * (i * C + j)) =
            (i * (C + 1) + j + 1, (i + 1) * (C + 1) + j + 1, i * (C + 1) + (j + 1) + 1)
        \<and> faces ! (2 * (i * C + j) + 1) =
            ((i + 1) * (C + 1) + (j + 1) + 1, i * (C + 1) + (j + 1) + 1, (i + 1) * (C + 1) + j + 1)
        \<and> landuses ! (2 * (i * C + j)) = landuse (matrix ! i ! j)
        \<and> landuses ! (2 * (i * C + j) + 1) = landuse (matrix ! i ! j))
    \<and> (\<forall>(a, b, c)\<in>set faces.
          1 \<le> a \<and> a \<le> (R + 1) * (C + 1) \<and> 1 \<le> b \<and> b \<le> (R + 1) * (C + 1)
        \<and> 1 \<le> c \<and> c \<le> (R + 1) * (C + 1))"
proof -
  define l where "l = C + 1"
  define cellf where "cellf = (\<lambda>r k. [get_f1 r k l, get_f2 r k l])"
  define rowf where "rowf = (\<lambda>r. concat (map (cellf r) [0..<C]))"
  define faces where "faces = concat (map rowf [0..<R])"
  define celll where "celll = (\<lambda>p::sample. [landuse p, landuse p])"
  define rowl where "rowl = (\<lambda>row. concat (map celll row))"
  define landuses where "landuses = concat (map rowl matrix)"
  obtain row0 rest where m: "matrix = row0 # rest"
    using assms(1,3) by (cases matrix) auto
  have len0: "length row0 = C" using assms(4) m by simp
  have fr: "faces_of_rows 0 l matrix ([], []) = (faces, landuses)"
    unfolding faces_of_rows_eq[OF assms(4)]
    by (simp add: assms(3) faces_def rowf_def cellf_def landuses_def rowl_def celll_def)
  have "get_faces matrix = Inr (faces_of_rows 0 (length row0 + 1) matrix ([], []))"
    by (simp add: get_faces_def m)
  then have gf: "get_faces matrix = Inr (faces, landuses)"
    using fr len0 by (simp add: l_def)
  have rowf_len: "length (rowf r) = C * 2" for r
    unfolding rowf_def by (subst length_concat_uniform[where n = 2]) (auto simp: cellf_def)
  have rowl_len: "length (rowl row) = C * 2" if "row \<in> set matrix" for row
    unfolding rowl_def using that assms(4)
    by (subst length_concat_uniform[where n = 2]) (auto simp: celll_def)
  have lenf: "length faces = 2 * R * C"
    unfolding faces_def by (subst length_concat_uniform[where n = "C * 2"]) (auto simp: rowf_len)
  have lenl: "length landuses = 2 * R * C"
    unfolding landuses_def using assms(3)
    by (subst length_concat_uniform[where n = "C * 2"]) (auto simp: rowl_len)
  have nth_f: "faces ! (i * (C * 2) + (j * 2 + b)) = cellf i j ! b"
    if "i < R" "j < C" "b < 2" for i j b
  proof -
    have "faces ! (i * (C * 2) + (j * 2 + b)) = rowf i ! (j * 2 + b)"
      unfolding faces_def using that
      by (subst nth_concat_uniform[where n = "C * 2"]) (auto simp: rowf_len)
    also have "\<dots> = cellf i j ! b"
      unfolding rowf_def using that
      by (subst nth_concat_uniform[where n = 2]) (auto simp: cellf_def)
    finally show ?thesis .
  qed
  have nth_l: "landuses ! (i * (C * 2) + (j * 2 + b)) = landuse (matrix ! i ! j)"
    if "i < R" "j < C" "b < 2" for i j b
  proof -
    have li: "length (matrix ! i) = C" using that assms(3,4) by auto
    have "landuses ! (i * (C * 2) + (j * 2 + b)) = rowl (matrix ! i) ! (j * 2 + b)"
      unfolding landuses_def using that assms(3)
      by (subst nth_concat_uniform[where n = "C * 2"]) (auto simp: rowl_len)
    also have "\<dots> = celll (matrix ! i ! j) ! b"
      unfolding rowl_def using that li
      by (subst nth_concat_uniform[where n = 2]) (auto simp: celll_def)
    also have "\<dots> = landuse (matrix ! i ! j)"
      using that by (cases b) (auto simp: celll_def)
    finally show ?thesis .
  qed
  have cells: "faces ! (2 * (i * C + j)) =
            (i * (C + 1) + j + 1, (i + 1) * (C + 1) + j + 1, i * (C + 1) + (j + 1) + 1)
        \<and> faces ! (2 * (i * C + j) + 1) =
            ((i + 1) * (C + 1) + (j + 1) + 1, i * (C + 1) + (j + 1) + 1, (i + 1) * (C + 1) + j + 1)
        \<and> landuses ! (2 * (i * C + j)) = landuse (matrix ! i ! j)
        \<and> landuses ! (2 * (i * C + j) + 1) = landuse (matrix ! i ! j)"
    if "i < R" "j < C" for i j
  proof -
    have e0: "2 * (i * C + j) = i * (C * 2) + (j * 2 + 0)" by (simp add: algebra_simps)
    have e1: "2 * (i * C + j) + 1 = i * (C * 2) + (j * 2 + 1)" by (simp add: algebra_simps)
    have "faces ! (2 * (i * C + j)) = cellf i j ! 0"
      unfolding e0 using that by (intro nth_f) auto
    moreover have "faces ! (2 * (i * C + j) + 1) = cellf i j ! 1"
      unfolding e1 using that by (intro nth_f) auto
    moreover have "landuses ! (2 * (i * C + j)) = landuse (matrix ! i ! j)"
      unfolding e0 using that by (intro nth_l) auto
    moreover have "landuses ! (2 * (i * C + j) + 1) = landuse (matrix ! i ! j)"
      unfolding e1 using that by (intro nth_l) auto
    ultimately show ?thesis
      by (simp add: cellf_def get_f1_def get_f2_def get_vert_index_def l_def)
  qed
  have bounds: "1 \<le> a \<and> a \<le> (R + 1) * (C + 1) \<and> 1 \<le> b \<and> b \<le> (R + 1) * (C + 1)
        \<and> 1 \<le> c \<and> c \<le> (R + 1) * (C + 1)" if "(a, b, c) \<in> set faces" for a b c
  proof -
    from that obtain r k where rk: "r < R" "k < C"
      and f: "(a, b, c) = get_f1 r k l \<or> (a, b, c) = get_f2 r k l"
      by (auto simp: faces_def rowf_def cellf_def)
    have b1: "get_vert_index r k l \<le> (R + 1) * (C + 1)"
      and b2: "get_vert_index (r + 1) k l \<le> (R + 1) * (C + 1)"
      and b3: "get_vert_index r (k + 1) l \<le> (R + 1) * (C + 1)"
      and b4: "get_vert_index (r + 1) (k + 1) l \<le> (R + 1) * (C + 1)"
      unfolding l_def using rk by (intro vert_index_bound; simp)+
    have "1 \<le> get_vert_index x y l" for x y by (simp add: get_vert_index_def)
    then show ?thesis using f b1 b2 b3 b4 by (auto simp: get_f1_def get_f2_def)
  qed
  show ?thesis
    using gf lenf lenl cells bounds by (intro exI[of _ faces] exI[of _ landuses]) auto
qed

theorem get_faces_rectangular_witness:
  "\<exists>faces landuses.
      get_faces grid_1x2 = Inr (faces, landuses)
    \<and> length faces = 4 \<and> length landuses = 4
    \<and> faces ! 2 = (2, 5, 3) \<and> faces ! 3 = (6, 3, 5)
    \<and> landuses ! 2 = PyStr ''B'' \<and> landuses ! 3 = PyStr ''B''"
proof -
  have "\<exists>faces landuses.
      get_faces grid_1x2 = Inr (faces, landuses)
    \<and> length faces = 2 * 1 * 2 \<and> length landuses = length faces
    \<and> (\<forall>i<1. \<forall>j<2.
          faces ! (2 * (i * 2 + j)) =
            (i * (2 + 1) + j + 1, (i + 1) * (2 + 1) + j + 1, i * (2 + 1) + (j + 1) + 1)
        \<and> faces ! (2 * (i * 2 + j) + 1) =
            ((i + 1) * (2 + 1) + (j + 1) + 1, i * (2 + 1) + (j + 1) + 1, (i + 1) * (2 + 1) + j + 1)
        \<and> landuses ! (2 * (i * 2 + j)) = landuse (grid_1x2 ! i ! j)
        \<and> landuses ! (2 * (i * 2 + j) + 1) = landuse (grid_1x2 ! i ! j))
    \<and> (\<forall>(a, b, c)\<in>set faces.
          1 \<le> a \<and> a \<le> (1 + 1) * (2 + 1) \<and> 1 \<le> b \<and> b \<le> (1 + 1) * (2 + 1)
        \<and> 1 \<le> c \<and> c \<le> (1 + 1) * (2 + 1))"
    by (rule get_faces_rectangular) (simp_all add: grid_1x2_def)
  then obtain faces landuses where gf: "get_faces grid_1x2 = Inr (faces, landuses)"
    and len: "length faces = 2 * 1 * 2" "length landuses = length faces"
    and cells: "\<forall>i<1. \<forall>j<2.
          faces ! (2 * (i * 2 + j)) =
            (i * (2 + 1) + j + 1, (i + 1) * (2 + 1) + j + 1, i * (2 + 1) + (j + 1) + 1)
        \<and> faces ! (2 * (i * 2 + j) + 1) =
            ((i + 1) * (2 + 1) + (j + 1) + 1, i * (2 + 1) + (j + 1) + 1, (i + 1) * (2 + 1) + j + 1)
        \<and> landuses ! (2 * (i * 2 + j)) = landuse (grid_1x2 ! i ! j)
        \<and> landuses ! (2 * (i * 2 + j) + 1) = landuse (grid_1x2 ! i ! j)"
    by blast
  have "(0::nat) < 1" "(1::nat) < 2" by simp_all
  with cells have "faces ! (2 * (0 * 2 + 1)) =
            (0 * (2 + 1) + 1 + 1, (0 + 1) * (2 + 1) + 1 + 1, 0 * (2 + 1) + (1 + 1) + 1)
        \<and> faces ! (2 * (0 * 2 + 1) + 1) =
            ((0 + 1) * (2 + 1) + (1 + 1) + 1, 0 * (2 + 1) + (1 + 1) + 1, (0 + 1) * (2 + 1) + 1 + 1)
        \<and> landuses ! (2 * (0 * 2 + 1)) = landuse (grid_1x2 ! 0 ! 1)
        \<and> landuses ! (2 * (0 * 2 + 1) + 1) = landuse (grid_1x2 ! 0 ! 1)"
    by blast
  then have "faces ! 2 = (2, 5, 3) \<and> faces ! 3 = (6, 3, 5)
     \<and> landuses ! 2 = PyStr ''B'' \<and> landuses ! 3 = PyStr ''B''"
    by (simp add: grid_1x2_def landuse_def)
  with gf len show ?thesis by simp
qed

section \<open>Vertex Reconstructor\<close>


















section \<open>The concrete scenario of the specification\<close>

text \<open>
  Claim C8 as stated fails: with the land-use \<open>''A''\<close> the Vertex Reconstructor subtracts the
  land-use strings of two centers when it computes the displacement and raises \<open>TypeError\<close>.
\<close>

theorem scenario_2x2_string_code_counterexample:
  "get_verts (grid_2x2 (PyStr ''A'')) = Inl TypeError"
  by (simp add: grid_2x2_def get_verts_def inject_ghost_centers_def and_then_def)

text \<open>
  Claim C8, amended. For the grid of two rows and two columns with centers \<open>(0,0)\<close>, \<open>(1,0)\<close>
  and \<open>(0,1)\<close>, \<open>(1,1)\<close>, elevation \<open>0\<close> and an integer land-use code \<open>n\<close> in every cell, the
  Vertex Reconstructor returns exactly the nine vertices of the lattice
  \<open>{-1/2, 1/2, 3/2} \<times> {-1/2, 1/2, 3/2}\<close>, all at elevation \<open>0\<close>, and the Face Builder returns
  exactly eight triangles, all tagged \<open>n\<close>. With the land-use \<open>''A''\<close> the Face Builder
  returns the same eight triangles, all tagged \<open>''A''\<close>.
\<close>

theorem scenario_2x2_integer_code:
  "(\<exists>padded. get_verts (grid_2x2 (PyInt n)) =
      Inr ([(- 1 / 2, - 1 / 2, 0), (1 / 2, - 1 / 2, 0), (3 / 2, - 1 / 2, 0),
            (- 1 / 2, 1 / 2, 0), (1 / 2, 1 / 2, 0), (3 / 2, 1 / 2, 0),
            (- 1 / 2, 3 / 2, 0), (1 / 2, 3 / 2, 0), (3 / 2, 3 / 2, 0)], padded))
   \<and> get_faces (grid_2x2 (PyInt n)) =
      Inr ([(1, 4, 2), (5, 2, 4), (2, 5, 3), (6, 3, 5), (4, 7, 5), (8, 5, 7), (5, 8, 6), (9, 6, 8)],
           replicate 8 (PyInt n))
   \<and> get_faces (grid_2x2 (PyStr ''A'')) =
      Inr ([(1, 4, 2), (5, 2, 4), (2, 5, 3), (6, 3, 5), (4, 7, 5), (8, 5, 7), (5, 8, 6), (9, 6, 8)],
           replicate 8 (PyStr ''A''))"
proof -
  have "\<exists>padded. get_verts (grid_2x2 (PyInt n)) =
      Inr ([(- 1 / 2, - 1 / 2, 0), (1 / 2, - 1 / 2, 0), (3 / 2, - 1 / 2, 0),
            (- 1 / 2, 1 / 2, 0), (1 / 2, 1 / 2, 0), (3 / 2, 1 / 2, 0),
            (- 1 / 2, 3 / 2, 0), (1 / 2, 3 / 2, 0), (3 / 2, 3 / 2, 0)], padded)"
    by (simp add: grid_2x2_def get_verts_def inject_ghost_centers_def and_then_def ghost_cols_def
      get_neighbour_centers_def avg_def upt_conv_Cons Let_def)
  moreover have "get_faces (grid_2x2 l) =
      Inr ([(1, 4, 2), (5, 2, 4), (2, 5, 3), (6, 3, 5), (4, 7, 5), (8, 5, 7), (5, 8, 6), (9, 6, 8)],
           replicate 8 l)" for l
    by (simp add: grid_2x2_def get_faces_def get_f1_def get_f2_def get_vert_index_def landuse_def
       numeral_eq_Suc)
  ultimately show ?thesis by simp
qed

section \<open>The caller's grid after vertex reconstruction\<close>

lemma map_err_Inr:
  "map_err f xs = Inr ys \<Longrightarrow> list_all2 (\<lambda>x y. f x = Inr y) xs ys"
  by (induction xs arbitrary: ys) (auto split: sum.splits)

lemma ghost_cols_Inr:
  "ghost_cols dx row = Inr prow \<Longrightarrow> \<exists>g0 g1. prow = g0 # row @ [g1]"
  by (auto simp: ghost_cols_def and_then_def Let_def split: if_splits sum.splits)

lemma inject_ghost_centers_Inr:
  assumes "inject_ghost_centers grid = Inr padded"
  shows "grid \<noteq> [] \<and> (\<exists>first_row last_row.
           length first_row = length (hd grid) \<and> length last_row = length (last grid)
         \<and> list_all2 (\<lambda>row prow. \<exists>g0 g1. prow = g0 # row @ [g1])
              (first_row # grid @ [last_row]) padded)"
proof -
  have ne: "grid \<noteq> []" using assms by (auto simp: inject_ghost_centers_def)
  from assms obtain dx dy first_row last_row where
    fr: "map_err (\<lambda>c. map_fsub c dy) (grid ! 0) = Inr first_row"
    and lr: "map_err (\<lambda>c. map_fadd c dy) (last grid) = Inr last_row"
    and pd: "map_err (ghost_cols dx) (first_row # grid @ [last_row]) = Inr padded"
    using ne
    by (auto simp: inject_ghost_centers_def and_then_def Let_def split: if_splits sum.splits)
  have "length first_row = length (hd grid)"
    using list_all2_lengthD[OF map_err_Inr[OF fr]] ne by (simp add: hd_conv_nth)
  moreover have "length last_row = length (last grid)"
    using list_all2_lengthD[OF map_err_Inr[OF lr]] by simp
  moreover have "list_all2 (\<lambda>row prow. \<exists>g0 g1. prow = g0 # row @ [g1])
              (first_row # grid @ [last_row]) padded"
    using map_err_Inr[OF pd] by (rule list_all2_mono) (rule ghost_cols_Inr)
  ultimately show ?thesis using ne by blast
qed

text \<open>
  Claim C4 as stated fails: after \<^verbatim>\<open>_get_verts\<close> the caller's grid of two rows and two
  columns holds four rows of four entries and is no longer the grid that was passed in.
\<close>

theorem get_verts_mutates_counterexample:
  "(case get_verts (grid_2x2 (PyInt 1)) of
      Inl e \<Rightarrow> None
    | Inr (verts, grid') \<Rightarrow> Some (length grid', map length grid', grid' = grid_2x2 (PyInt 1)))
   = Some (4, [4, 4, 4, 4], False)"
  by (simp add: grid_2x2_def get_verts_def inject_ghost_centers_def and_then_def ghost_cols_def
      get_neighbour_centers_def upt_conv_Cons Let_def)

text \<open>
  Claim C4, amended. The Vertex Reconstructor pads the caller's grid in place: whenever it
  returns, the grid the caller holds has two more rows than before, every original row has
  two more entries, the ghost rows are two entries longer than the first and the last
  original row, and the original sample of cell \<open>(i, j)\<close> sits at row \<open>i + 1\<close>, column
  \<open>j + 1\<close>; for a grid of \<open>R\<close> rows of \<open>C\<close> entries that is \<open>R + 2\<close> rows of \<open>C + 2\<close> entries.
\<close>

theorem get_verts_pads_in_place:
  assumes "get_verts grid = Inr (verts, grid')"
  shows "length grid' = length grid + 2
       \<and> map length grid' = map (\<lambda>n. n + 2) (length (hd grid) # map length grid @ [length (last grid)])
       \<and> (\<forall>i<length grid. \<forall>j<length (grid ! i). grid' ! (i + 1) ! (j + 1) = grid ! i ! j)"
proof -
  from assms have inj: "inject_ghost_centers grid = Inr grid'"
    by (auto simp: get_verts_def and_then_def split: sum.splits list.splits)
  from inject_ghost_centers_Inr[OF this] obtain first_row last_row where ne: "grid \<noteq> []"
    and lf: "length first_row = length (hd grid)" and ll: "length last_row = length (last grid)"
    and all2: "list_all2 (\<lambda>row prow. \<exists>g0 g1. prow = g0 # row @ [g1])
              (first_row # grid @ [last_row]) grid'"
    by blast
  have len: "length grid' = length grid + 2"
    using list_all2_lengthD[OF all2] by simp
  have "list_all2 (\<lambda>row prow. length prow = length row + 2) (first_row # grid @ [last_row]) grid'"
    using all2 by (rule list_all2_mono) auto
  then have "map length grid' = map (\<lambda>n. n + 2) (map length (first_row # grid @ [last_row]))"
    by (induction rule: list_all2_induct) auto
  then have shape: "map length grid' =
      map (\<lambda>n. n + 2) (length (hd grid) # map length grid @ [length (last grid)])"
    using lf ll by simp
  have inner: "grid' ! (i + 1) ! (j + 1) = grid ! i ! j" if "i < length grid" "j < length (grid ! i)" for i j
  proof -
    have "Suc i < length (first_row # grid @ [last_row])" using that by simp
    from list_all2_nthD[OF all2 this] obtain g0 g1 where
      "grid' ! Suc i = g0 # (first_row # grid @ [last_row]) ! Suc i @ [g1]" by blast
    then have "grid' ! Suc i = g0 # grid ! i @ [g1]" using that by (simp add: nth_append)
    then show ?thesis using that by (simp add: nth_append)
  qed
  show ?thesis using len shape inner by blast
qed

theorem get_verts_pads_in_place_witness:
  "\<exists>verts grid'. get_verts (grid_2x2 (PyInt 1)) = Inr (verts, grid')
     \<and> length grid' = 4 \<and> map length grid' = [4, 4, 4, 4]
     \<and> grid' ! 1 ! 1 = (0, 0, 0, PyInt 1) \<and> grid' ! 2 ! 2 = (1, 1, 0, PyInt 1)"
proof -
  obtain verts grid' where gv: "get_verts (grid_2x2 (PyInt 1)) = Inr (verts, grid')"
    by (simp add: grid_2x2_def get_verts_def inject_ghost_centers_def and_then_def ghost_cols_def
      get_neighbour_centers_def upt_conv_Cons Let_def)
  note t = get_verts_pads_in_place[OF gv]
  from t have len: "length grid' = 4" and shape: "map length grid' = [4, 4, 4, 4]"
    by (simp_all add: grid_2x2_def)
  from t have inner: "\<forall>i<length (grid_2x2 (PyInt 1)). \<forall>j<length (grid_2x2 (PyInt 1) ! i).
      grid' ! (i + 1) ! (j + 1) = grid_2x2 (PyInt 1) ! i ! j"
    by blast
  have "grid' ! (0 + 1) ! (0 + 1) = grid_2x2 (PyInt 1) ! 0 ! 0"
    and "grid' ! (1 + 1) ! (1 + 1) = grid_2x2 (PyInt 1) ! 1 ! 1"
    using inner by (simp_all add: grid_2x2_def)
  then have "grid' ! 1 ! 1 = (0, 0, 0, PyInt 1)" "grid' ! 2 ! 2 = (1, 1, 0, PyInt 1)"
    by (simp_all add: grid_2x2_def numeral_2_eq_2)
  with gv len shape show ?thesis
    by (intro exI[of _ verts] exI[of _ grid']) simp
qed

section \<open>Grid Reshaper\<close>

text \<open>
  Claim C3 fails on the code. On the stream of three columns of three points the reshaper
  does not return the grid of the nine samples. With a one-pass feature iterator the second
  loop resumes after the first point of the second column, so the first column is lost and
  every later column loses its first point; with a restartable sequence every column loses
  its last point, the branch \<^verbatim>\<open>i == column_len\<close> storing nothing. Reshaping the
  column-major flattening of the grid that was returned gives a different, smaller grid.
\<close>

theorem get_matrix_drops_samples:
  "get_matrix \<lparr>getFeatures = stream_3x3, iteration = OnePass\<rparr> (0, 0) =
     Inr [[(1, 1, 21, PyInt 5), (2, 1, 31, PyInt 8)], [(1, 2, 22, PyInt 6), (2, 2, 32, PyInt 9)]]
   \<and> get_matrix \<lparr>getFeatures = reserialize
        [[(1, 1, 21, PyInt 5), (2, 1, 31, PyInt 8)], [(1, 2, 22, PyInt 6), (2, 2, 32, PyInt 9)]],
        iteration = OnePass\<rparr> (0, 0) =
     Inr [[(2, 2, 32, PyInt 9)]]
   \<and> get_matrix \<lparr>getFeatures = stream_3x3, iteration = Restartable\<rparr> (0, 0) =
     Inr [[(0, 0, 10, PyInt 1), (1, 0, 20, PyInt 4), (2, 0, 30, PyInt 7)],
          [(0, 1, 11, PyInt 2), (1, 1, 21, PyInt 5), (2, 1, 31, PyInt 8)]]
   \<and> get_matrix \<lparr>getFeatures = reserialize
        [[(0, 0, 10, PyInt 1), (1, 0, 20, PyInt 4), (2, 0, 30, PyInt 7)],
         [(0, 1, 11, PyInt 2), (1, 1, 21, PyInt 5), (2, 1, 31, PyInt 8)]],
        iteration = Restartable\<rparr> (0, 0) =
     Inr [[(0, 0, 10, PyInt 1), (1, 0, 20, PyInt 4), (2, 0, 30, PyInt 7)]]"
  by (simp add: stream_3x3_def reserialize_def get_matrix_def sample_feature_def dot_product_def norm_vec_def float_sq_def float_mul_def landuse_of_def zip_star_def Let_def)

text \<open>
  Claim C5 as stated fails: a stream of one point raises nothing. Through a one-pass iterator
  the reshaper returns the empty grid, through a restartable sequence the grid of that one
  sample; the empty stream gives the empty grid.
\<close>

theorem get_matrix_one_point_counterexample:
  "get_matrix \<lparr>getFeatures = [sample_feature 3 4 5 (PyInt 1)], iteration = OnePass\<rparr> (0, 0) = Inr []
   \<and> get_matrix \<lparr>getFeatures = [sample_feature 3 4 5 (PyInt 1)], iteration = Restartable\<rparr> (0, 0)
       = Inr [[(3, 4, 5, PyInt 1)]]
   \<and> get_matrix \<lparr>getFeatures = [], iteration = OnePass\<rparr> (0, 0) = Inr []"
  by (simp add: get_matrix_def sample_feature_def dot_product_def norm_vec_def float_sq_def float_mul_def landuse_of_def zip_star_def Let_def)

text \<open>
  Claim C5, amended. For a stream of fewer than two points the Grid Reshaper raises no
  malformed-input error. It returns the empty grid for the empty stream and for one point
  read through a one-pass iterator; for one point of a restartable sequence it returns the
  grid of that one sample, or the \<open>IndexError\<close> of a feature with fewer than six attribute
  slots.
\<close>

theorem get_matrix_short_stream:
  assumes "length (getFeatures layer) < 2"
  shows "get_matrix layer origin =
     (case getFeatures layer of
        [] \<Rightarrow> Inr []
      | f # _ \<Rightarrow>
          (case iteration layer of
             OnePass \<Rightarrow> Inr []
           | Restartable \<Rightarrow>
               (case landuse_of (attributes f) of
                  Inl e \<Rightarrow> Inl e
                | Inr lu \<Rightarrow> Inr [[(gx f - fst origin, gy f - snd origin, gz f, lu)]])))"
proof (cases "getFeatures layer")
  case Nil
  then show ?thesis by (simp add: get_matrix_def zip_star_def split: iteration.splits)
next
  case (Cons f fs)
  with assms have "fs = []" by simp
  with Cons show ?thesis
    by (simp add: get_matrix_def zip_star_def Let_def split: iteration.splits sum.splits)
qed

theorem get_matrix_short_stream_witness:
  "length (getFeatures \<lparr>getFeatures = [sample_feature 3 4 5 PyNone], iteration = Restartable\<rparr>) < 2
   \<and> get_matrix \<lparr>getFeatures = [sample_feature 3 4 5 PyNone], iteration = Restartable\<rparr> (1, 1)
       = Inr [[(2, 3, 5, PyInt 0)]]"
proof -
  have h: "length (getFeatures \<lparr>getFeatures = [sample_feature 3 4 5 PyNone], iteration = Restartable\<rparr>) < 2"
    by simp
  show ?thesis
    using h get_matrix_short_stream[OF h, of "(1, 1)"]
    by (simp add: sample_feature_def landuse_of_def)
qed

lemma float_sq_zero: "float_sq 0 = Inr 0"
  by (simp add: float_sq_def)

lemma float_sq_in_range:
  assumes "\<bar>x\<bar> \<le> 4 * 10 ^ 150"
  shows "\<exists>a. float_sq x = Inr a"
proof -
  have "x ^ 2 = \<bar>x\<bar> ^ 2" by simp
  also have "\<dots> \<le> (4 * 10 ^ 150) ^ 2" using assms by (intro power_mono) simp_all
  also have "\<dots> < (2 ^ 1024 - 2 ^ 970 :: real)" by simp
  finally have "\<not> 2 ^ 1024 - 2 ^ 970 \<le> x ^ 2" by simp
  then show ?thesis by (simp add: float_sq_def)
qed

lemma norm_vec_in_range:
  assumes "\<bar>x\<bar> \<le> 4 * 10 ^ 150" and "\<bar>y\<bar> \<le> 4 * 10 ^ 150"
  shows "\<exists>n. norm_vec (x, y) = Inr n"
proof -
  obtain a b where "float_sq x = Inr a" "float_sq y = Inr b"
    using float_sq_in_range[OF assms(1)] float_sq_in_range[OF assms(2)] by blast
  then show ?thesis by (simp add: norm_vec_def)
qed

lemma norm_vec_origin: "norm_vec (0, 0) = Inr 0"
  by (simp add: norm_vec_def float_sq_zero)

lemma float_mul_zero: "float_mul 0 n = 0" "float_mul n 0 = 0"
  by (simp_all add: float_mul_def)

lemma moderate_diff:
  "moderate a \<Longrightarrow> moderate b \<Longrightarrow> \<bar>a - b\<bar> \<le> 4 * 10 ^ 150"
  by (simp add: moderate_def)

lemma dot_product_coincident:
  assumes "moderate (fst p0)" "moderate (snd p0)" "moderate (fst p1)" "moderate (snd p1)"
    "moderate (fst p)" "moderate (snd p)" and "p1 = p0 \<or> p = p0"
  shows "dot_product p0 p1 p = Inl ZeroDivisionError"
proof -
  have "\<exists>n. norm_vec (fst p1 - fst p0, snd p1 - snd p0) = Inr n"
    by (intro norm_vec_in_range moderate_diff assms)
  then obtain n0 where n0: "norm_vec (fst p1 - fst p0, snd p1 - snd p0) = Inr n0" by blast
  have "\<exists>n. norm_vec (fst p - fst p0, snd p - snd p0) = Inr n"
    by (intro norm_vec_in_range moderate_diff assms)
  then obtain n1 where n1: "norm_vec (fst p - fst p0, snd p - snd p0) = Inr n1" by blast
  from assms(7) have "n0 = 0 \<or> n1 = 0"
    using n0 n1 by (auto simp: norm_vec_origin)
  then have "float_mul n0 n1 = 0" by (auto simp: float_mul_zero)
  then show ?thesis using n0 n1 by (simp add: dot_product_def Let_def)
qed

text \<open>
  Claim C6 as stated fails. Two coincident points alone raise nothing. With a third point the
  scan fails with Python's own \<open>ZeroDivisionError\<close>, or with \<open>OverflowError\<close> when the third
  point is far away; the module has no guard and no error of its own. And the division is by
  zero also when the first two points differ: when a scanned point coincides with the first
  point, and when the points are so close that the squares in \<^verbatim>\<open>_norm\<close> round to zero.
\<close>

theorem scan_division_fault_counterexample:
  "get_matrix \<lparr>getFeatures = [sample_feature 1 1 0 (PyInt 1), sample_feature 1 1 0 (PyInt 1)],
       iteration = OnePass\<rparr> (0, 0) = Inr []
   \<and> get_matrix \<lparr>getFeatures = [sample_feature 1 1 0 (PyInt 1), sample_feature 1 1 0 (PyInt 1),
         sample_feature 1 2 0 (PyInt 1)], iteration = OnePass\<rparr> (0, 0) = Inl ZeroDivisionError
   \<and> get_matrix \<lparr>getFeatures = [sample_feature 1 1 0 (PyInt 1), sample_feature 1 1 0 (PyInt 1),
         sample_feature (2 ^ 700) 1 0 (PyInt 1)], iteration = OnePass\<rparr> (0, 0) = Inl OverflowError
   \<and> dot_product (0, 0) (0, 1) (0, 0) = Inl ZeroDivisionError
   \<and> dot_product (0, 0) (0, 1 / 2 ^ 600) (0, 1 / 2 ^ 599) = Inl ZeroDivisionError"
proof -
  have "get_matrix \<lparr>getFeatures = [sample_feature 1 1 0 (PyInt 1), sample_feature 1 1 0 (PyInt 1)],
       iteration = OnePass\<rparr> (0, 0) = Inr []"
    by (simp add: get_matrix_def sample_feature_def dot_product_def norm_vec_def float_sq_def float_mul_def landuse_of_def zip_star_def Let_def)
  moreover have "get_matrix \<lparr>getFeatures = [sample_feature 1 1 0 (PyInt 1), sample_feature 1 1 0 (PyInt 1),
         sample_feature 1 2 0 (PyInt 1)], iteration = OnePass\<rparr> (0, 0) = Inl ZeroDivisionError"
    by (simp add: get_matrix_def sample_feature_def dot_product_def norm_vec_def float_sq_def float_mul_def landuse_of_def zip_star_def Let_def)
  moreover have "get_matrix \<lparr>getFeatures = [sample_feature 1 1 0 (PyInt 1), sample_feature 1 1 0 (PyInt 1),
         sample_feature (2 ^ 700) 1 0 (PyInt 1)], iteration = OnePass\<rparr> (0, 0) = Inl OverflowError"
    by (simp add: get_matrix_def sample_feature_def dot_product_def norm_vec_def float_sq_def float_mul_def landuse_of_def zip_star_def Let_def)
  moreover have "dot_product (0, 0) (0, 1) (0, 0) = Inl ZeroDivisionError"
    by (simp add: get_matrix_def sample_feature_def dot_product_def norm_vec_def float_sq_def float_mul_def landuse_of_def zip_star_def Let_def)
  moreover have "dot_product (0, 0) (0, 1 / 2 ^ 600) (0, 1 / 2 ^ 599) = Inl ZeroDivisionError"
    by (simp add: get_matrix_def sample_feature_def dot_product_def norm_vec_def float_sq_def float_mul_def landuse_of_def zip_star_def Let_def power2_eq_square)
  ultimately show ?thesis by blast
qed

text \<open>
  Claim C6, amended. A stream of two points, coincident or not, passes the column-length scan
  without any division: the scan returns the column length 2. If the first two points
  coincide and a third point follows, the coordinates and the origin being of moderate size
  (at most \<open>10^150\<close>, so that the squares in \<^verbatim>\<open>_norm\<close> stay inside the float range), the
  scan fails with the \<open>ZeroDivisionError\<close> of the cosine's normalization. For points of
  moderate size the division is by zero whenever the second point or the scanned point
  coincides with the first point: that the first two points differ does not make the
  division safe.
\<close>

theorem scan_division_fault:
  "scan_column_len origin None None None [f0, f1] = Inr (Some 2, [])
   \<and> (gx f0 = gx f1 \<and> gy f0 = gy f1
        \<and> moderate (gx f0) \<and> moderate (gy f0) \<and> moderate (gx f2) \<and> moderate (gy f2)
        \<and> moderate (fst origin) \<and> moderate (snd origin) \<longrightarrow>
      get_matrix \<lparr>getFeatures = f0 # f1 # f2 # rest, iteration = it\<rparr> origin = Inl ZeroDivisionError)
   \<and> (moderate (fst p0) \<and> moderate (snd p0) \<and> moderate (fst p1) \<and> moderate (snd p1)
        \<and> moderate (fst p) \<and> moderate (snd p) \<and> (p1 = p0 \<or> p = p0) \<longrightarrow>
      dot_product p0 p1 p = Inl ZeroDivisionError)"
proof -
  have two: "scan_column_len origin None None None [f0, f1] = Inr (Some 2, [])"
    by (simp add: Let_def)
  have three: "get_matrix \<lparr>getFeatures = f0 # f1 # f2 # rest, iteration = it\<rparr> origin = Inl ZeroDivisionError"
    if c: "gx f0 = gx f1" "gy f0 = gy f1"
      and m: "moderate (gx f0)" "moderate (gy f0)" "moderate (gx f2)" "moderate (gy f2)"
  proof -
    let ?p0 = "(gx f0 - fst origin, gy f0 - snd origin)"
    let ?p2 = "(gx f2 - fst origin, gy f2 - snd origin)"
    have dx: "\<bar>gx f2 - fst origin - (gx f0 - fst origin)\<bar> \<le> 4 * 10 ^ 150"
      and dy: "\<bar>gy f2 - snd origin - (gy f0 - snd origin)\<bar> \<le> 4 * 10 ^ 150"
      using m by (simp_all add: moderate_def)
    obtain n1 where n1: "norm_vec (gx f2 - fst origin - (gx f0 - fst origin),
        gy f2 - snd origin - (gy f0 - snd origin)) = Inr n1"
      using norm_vec_in_range[OF dx dy] by blast
    have "dot_product ?p0 ?p0 ?p2 = Inl ZeroDivisionError"
      using n1 by (simp add: dot_product_def Let_def norm_vec_origin float_mul_zero)
    then show ?thesis using c by (simp add: get_matrix_def Let_def)
  qed
  have div: "dot_product p0 p1 p = Inl ZeroDivisionError"
    if "moderate (fst p0)" "moderate (snd p0)" "moderate (fst p1)" "moderate (snd p1)"
       "moderate (fst p)" "moderate (snd p)" "p1 = p0 \<or> p = p0"
    using that by (rule dot_product_coincident)
  from two three div show ?thesis by blast
qed

theorem scan_division_fault_witness:
  "scan_column_len (0, 0) None None None [sample_feature 1 1 0 PyNone, sample_feature 1 1 7 PyNone]
     = Inr (Some 2, [])
   \<and> get_matrix \<lparr>getFeatures = [sample_feature 1 1 0 PyNone, sample_feature 1 1 7 PyNone,
         sample_feature 1 2 0 PyNone, sample_feature 2 1 0 PyNone], iteration = Restartable\<rparr> (0, 0)
       = Inl ZeroDivisionError
   \<and> dot_product (3, 4) (5, 6) (3, 4) = Inl ZeroDivisionError"
proof -
  note t = scan_division_fault[of "(0, 0)" "sample_feature 1 1 0 PyNone" "sample_feature 1 1 7 PyNone"
      "sample_feature 1 2 0 PyNone" "[sample_feature 2 1 0 PyNone]" Restartable
      "(3, 4)" "(5, 6)" "(3, 4)"]
  have h1: "gx (sample_feature 1 1 0 PyNone) = gx (sample_feature 1 1 7 PyNone)
      \<and> gy (sample_feature 1 1 0 PyNone) = gy (sample_feature 1 1 7 PyNone)
      \<and> moderate (gx (sample_feature 1 1 0 PyNone)) \<and> moderate (gy (sample_feature 1 1 0 PyNone))
      \<and> moderate (gx (sample_feature 1 2 0 PyNone)) \<and> moderate (gy (sample_feature 1 2 0 PyNone))
      \<and> moderate (fst (0 :: real, 0 :: real)) \<and> moderate (snd (0 :: real, 0 :: real))"
    by (simp add: sample_feature_def moderate_def)
  have h2: "moderate (fst (3 :: real, 4 :: real)) \<and> moderate (snd (3 :: real, 4 :: real))
      \<and> moderate (fst (5 :: real, 6 :: real)) \<and> moderate (snd (5 :: real, 6 :: real))
      \<and> moderate (fst (3 :: real, 4 :: real)) \<and> moderate (snd (3 :: real, 4 :: real))
      \<and> ((5 :: real, 6 :: real) = (3, 4) \<or> (3 :: real, 4 :: real) = (3, 4))"
    by (simp add: moderate_def)
  from t have c1: "scan_column_len (0, 0) None None None
      [sample_feature 1 1 0 PyNone, sample_feature 1 1 7 PyNone] = Inr (Some 2, [])"
    by blast
  from t h1 have c2: "get_matrix \<lparr>getFeatures = [sample_feature 1 1 0 PyNone, sample_feature 1 1 7 PyNone,
         sample_feature 1 2 0 PyNone, sample_feature 2 1 0 PyNone], iteration = Restartable\<rparr> (0, 0)
       = Inl ZeroDivisionError"
    by blast
  from t h2 have c3: "dot_product (3, 4) (5, 6) (3, 4) = Inl ZeroDivisionError"
    by blast
  from c1 c2 c3 show ?thesis by blast
qed

section \<open>No stage validates its input\<close>





















section \<open>The land-use sentinel\<close>

lemma scan_column_len_map:
  assumes "\<And>f. gx (h f) = gx f \<and> gy (h f) = gy f"
  shows "scan_column_len origin first_point second_point column_len (map h fs) =
     (case scan_column_len origin first_point second_point column_len fs of
        Inl e \<Rightarrow> Inl e
      | Inr (cl, rest) \<Rightarrow> Inr (cl, map h rest))"
proof (induction fs arbitrary: first_point second_point column_len)
  case Nil
  then show ?case by simp
next
  case (Cons f fs)
  show ?case
  proof (cases first_point)
    case None
    then show ?thesis by (simp add: assms Cons.IH Let_def)
  next
    case fp: (Some fp)
    show ?thesis
    proof (cases second_point)
      case None
      then show ?thesis using fp by (simp add: assms Cons.IH Let_def)
    next
      case sp: (Some sp)
      show ?thesis
      proof (cases "dot_product fp sp (gx f - fst origin, gy f - snd origin)")
        case (Inl e)
        then show ?thesis using fp sp by (simp add: assms Let_def)
      next
        case (Inr d)
        then show ?thesis using fp sp by (simp add: assms Cons.IH Let_def)
      qed
    qed
  qed
qed

lemma split_columns_map:
  assumes "\<And>f. gx (h f) = gx f \<and> gy (h f) = gy f \<and> gz (h f) = gz f
              \<and> landuse_of (attributes (h f)) = landuse_of (attributes f)"
  shows "split_columns origin column_len i m (map h fs) = split_columns origin column_len i m fs"
proof (induction fs arbitrary: i m)
  case Nil
  then show ?case by simp
next
  case (Cons f fs)
  show ?case
  proof (cases "landuse_of (attributes f)")
    case (Inl e)
    then show ?thesis by (simp add: assms)
  next
    case (Inr lu)
    show ?thesis
    proof (cases column_len)
      case None
      then show ?thesis using Inr by (simp add: assms Cons.IH[unfolded None] Let_def)
    next
      case (Some c)
      then show ?thesis using Inr by (simp add: assms Cons.IH[unfolded Some] Let_def)
    qed
  qed
qed

lemma get_matrix_map:
  assumes "\<And>f. gx (h f) = gx f \<and> gy (h f) = gy f \<and> gz (h f) = gz f
              \<and> landuse_of (attributes (h f)) = landuse_of (attributes f)"
  shows "get_matrix \<lparr>getFeatures = map h fs, iteration = it\<rparr> origin
       = get_matrix \<lparr>getFeatures = fs, iteration = it\<rparr> origin"
proof -
  have s: "scan_column_len origin None None None (map h fs) =
     (case scan_column_len origin None None None fs of
        Inl e \<Rightarrow> Inl e
      | Inr (cl, rest) \<Rightarrow> Inr (cl, map h rest))"
    by (rule scan_column_len_map) (simp add: assms)
  show ?thesis
    by (simp add: get_matrix_def s split_columns_map[of h, OF assms] split: sum.splits iteration.splits)
qed

text \<open>
  Claim C10. The reshaper reads the land-use of a sample from attribute slot 5 and replaces
  every falsy value there (\<^verbatim>\<open>None\<close>, the code \<open>0\<close>, the empty code) by \<open>0\<close>. So for every
  stream, putting any other falsy value in place of each falsy slot 5 changes neither the
  grid nor anything \<^verbatim>\<open>get_geometry\<close> returns: downstream, a tag \<open>0\<close> does not tell a cell
  of code \<open>0\<close> from a cell without land-use.
\<close>

theorem landuse_falsy_becomes_zero:
  "(5 < length a \<longrightarrow> landuse_of a = Inr (if truthy (a ! 5) then a ! 5 else PyInt 0))
   \<and> (5 < length a \<and> (a ! 5 = PyNone \<or> a ! 5 = PyInt 0 \<or> a ! 5 = PyStr []) \<longrightarrow>
        landuse_of a = Inr (PyInt 0))
   \<and> ((\<forall>f. \<not> truthy (v f)) \<longrightarrow>
        get_matrix \<lparr>getFeatures =
            map (\<lambda>f. if truthy (attributes f ! 5) then f
                       else f\<lparr>attributes := (attributes f)[5 := v f]\<rparr>) fs,
          iteration = it\<rparr> origin
          = get_matrix \<lparr>getFeatures = fs, iteration = it\<rparr> origin
      \<and> get_geometry fb \<lparr>getFeatures =
            map (\<lambda>f. if truthy (attributes f ! 5) then f
                       else f\<lparr>attributes := (attributes f)[5 := v f]\<rparr>) fs,
          iteration = it\<rparr> origin
          = get_geometry fb \<lparr>getFeatures = fs, iteration = it\<rparr> origin)"
proof -
  have slot: "5 < length a \<longrightarrow> landuse_of a = Inr (if truthy (a ! 5) then a ! 5 else PyInt 0)"
    by (simp add: landuse_of_def)
  then have falsy: "5 < length a \<and> (a ! 5 = PyNone \<or> a ! 5 = PyInt 0 \<or> a ! 5 = PyStr []) \<longrightarrow>
        landuse_of a = Inr (PyInt 0)"
    by auto
  have same: "get_matrix \<lparr>getFeatures =
            map (\<lambda>f. if truthy (attributes f ! 5) then f
                       else f\<lparr>attributes := (attributes f)[5 := v f]\<rparr>) fs,
          iteration = it\<rparr> origin
          = get_matrix \<lparr>getFeatures = fs, iteration = it\<rparr> origin"
    if "\<forall>f. \<not> truthy (v f)"
    by (rule get_matrix_map) (use that in \<open>simp add: landuse_of_def\<close>)
  then have "get_geometry fb \<lparr>getFeatures =
            map (\<lambda>f. if truthy (attributes f ! 5) then f
                       else f\<lparr>attributes := (attributes f)[5 := v f]\<rparr>) fs,
          iteration = it\<rparr> origin
          = get_geometry fb \<lparr>getFeatures = fs, iteration = it\<rparr> origin"
    if "\<forall>f. \<not> truthy (v f)"
    using that unfolding get_geometry_def by simp
  with slot falsy same show ?thesis by blast
qed

theorem landuse_falsy_becomes_zero_witness:
  "landuse_of [PyNone, PyNone, PyNone, PyNone, PyNone, PyStr []] = Inr (PyInt 0)
   \<and> get_matrix \<lparr>getFeatures = stream_coded PyNone, iteration = OnePass\<rparr> (0, 0)
       = get_matrix \<lparr>getFeatures = stream_coded (PyInt 0), iteration = OnePass\<rparr> (0, 0)
   \<and> get_matrix \<lparr>getFeatures = stream_coded (PyInt 0), iteration = OnePass\<rparr> (0, 0)
       = Inr [[(1, 1, 0, PyInt 0), (2, 1, 0, PyInt 0)], [(1, 2, 0, PyInt 0), (2, 2, 0, PyInt 0)]]"
proof -
  note t = landuse_falsy_becomes_zero[of "[PyNone, PyNone, PyNone, PyNone, PyNone, PyStr []]"
      "\<lambda>f. PyNone" "stream_coded (PyInt 0)" OnePass "(0, 0)"]
  have h1: "5 < length [PyNone, PyNone, PyNone, PyNone, PyNone, PyStr []]
      \<and> ([PyNone, PyNone, PyNone, PyNone, PyNone, PyStr []] ! 5 = PyNone
         \<or> [PyNone, PyNone, PyNone, PyNone, PyNone, PyStr []] ! 5 = PyInt 0
         \<or> [PyNone, PyNone, PyNone, PyNone, PyNone, PyStr []] ! 5 = PyStr [])"
    by simp
  have h2: "\<forall>f::feature. \<not> truthy ((\<lambda>f. PyNone) f)" by simp
  have m: "map (\<lambda>f. if truthy (attributes f ! 5) then f
                       else f\<lparr>attributes := (attributes f)[5 := (\<lambda>f. PyNone) f]\<rparr>)
             (stream_coded (PyInt 0)) = stream_coded PyNone"
    by (simp add: stream_coded_def sample_feature_def)
  from t h1 have c1: "landuse_of [PyNone, PyNone, PyNone, PyNone, PyNone, PyStr []] = Inr (PyInt 0)"
    by blast
  from t h2 have "get_matrix \<lparr>getFeatures =
            map (\<lambda>f. if truthy (attributes f ! 5) then f
                       else f\<lparr>attributes := (attributes f)[5 := (\<lambda>f. PyNone) f]\<rparr>)
              (stream_coded (PyInt 0)),
          iteration = OnePass\<rparr> (0, 0)
          = get_matrix \<lparr>getFeatures = stream_coded (PyInt 0), iteration = OnePass\<rparr> (0, 0)"
    by blast
  then have c2: "get_matrix \<lparr>getFeatures = stream_coded PyNone, iteration = OnePass\<rparr> (0, 0)
       = get_matrix \<lparr>getFeatures = stream_coded (PyInt 0), iteration = OnePass\<rparr> (0, 0)"
    unfolding m .
  have c3: "get_matrix \<lparr>getFeatures = stream_coded (PyInt 0), iteration = OnePass\<rparr> (0, 0)
       = Inr [[(1, 1, 0, PyInt 0), (2, 1, 0, PyInt 0)], [(1, 2, 0, PyInt 0), (2, 2, 0, PyInt 0)]]"
    by (simp add: stream_coded_def get_matrix_def sample_feature_def dot_product_def norm_vec_def float_sq_def float_mul_def landuse_of_def zip_star_def Let_def)
  from c1 c2 c3 show ?thesis by blast
qed

section \<open>Cancellation\<close>

text \<open>
  Claim C9. Once the reshaping stage has returned: if the poll after it reports canceled,
  \<^verbatim>\<open>get_geometry\<close> returns the empty dict with the progress still at step 8 and only the
  first message pushed, whatever the later stages would do; if that poll does not, the Face
  Builder returns and the poll after it reports canceled, it returns the empty dict at step
  9, whatever the Vertex Reconstructor would do; if neither poll reports canceled and all
  three stages return, it returns the 4-tuple of vertices, faces, land-uses and the set of
  land-uses. It returns a 4-tuple only when neither poll reported canceled.
\<close>

theorem get_geometry_cancellation:
  assumes "get_matrix layer origin = Inr matrix"
  shows "(fst (isCanceled fb) \<longrightarrow>
            get_geometry fb layer origin =
              Inr (EmptyDict, fb\<lparr>current_step := 8,
                     info := info fb @ [''Geometry: building the point matrix...''],
                     cancel_polls := drop 1 (cancel_polls fb)\<rparr>))
       \<and> (\<not> fst (isCanceled fb) \<and> get_faces matrix = Inr (faces, landuses)
            \<and> fst (isCanceled (snd (isCanceled fb))) \<longrightarrow>
            get_geometry fb layer origin =
              Inr (EmptyDict, fb\<lparr>current_step := 9,
                     info := info fb @ [''Geometry: building the point matrix...'',
                                        ''Geometry: getting quad faces...''],
                     cancel_polls := drop 2 (cancel_polls fb)\<rparr>))
       \<and> (\<not> fst (isCanceled fb) \<and> get_faces matrix = Inr (faces, landuses)
            \<and> \<not> fst (isCanceled (snd (isCanceled fb))) \<and> get_verts matrix = Inr (verts, padded) \<longrightarrow>
            get_geometry fb layer origin =
              Inr (Geometry verts faces landuses (set landuses),
                   fb\<lparr>current_step := 11,
                     info := info fb @ [''Geometry: building the point matrix...'',
                                        ''Geometry: getting quad faces...'',
                                        ''Geometry: getting verts...''],
                     cancel_polls := drop 2 (cancel_polls fb)\<rparr>))
       \<and> (\<forall>vs fs ls lset fb'. get_geometry fb layer origin = Inr (Geometry vs fs ls lset, fb') \<longrightarrow>
            \<not> fst (isCanceled fb) \<and> \<not> fst (isCanceled (snd (isCanceled fb))))"
proof (cases "cancel_polls fb")
  case Nil
  then show ?thesis
    using assms
    by (auto simp: get_geometry_def and_then_def isCanceled_def pushInfo_def setCurrentStep_def Let_def
        split: sum.splits prod.splits if_splits)
next
  case (Cons b bs)
  show ?thesis
  proof (cases bs)
    case Nil
    then show ?thesis
      using assms Cons
      by (auto simp: get_geometry_def and_then_def isCanceled_def pushInfo_def setCurrentStep_def Let_def
        split: sum.splits prod.splits if_splits)
  next
    case (Cons b' bs')
    then show ?thesis
      using assms \<open>cancel_polls fb = b # bs\<close>
      by (auto simp: get_geometry_def and_then_def isCanceled_def pushInfo_def setCurrentStep_def Let_def
        split: sum.splits prod.splits if_splits)
  qed
qed

theorem get_geometry_cancellation_witness:
  "get_geometry \<lparr>current_step = 0, info = [], cancel_polls = [True]\<rparr>
      \<lparr>getFeatures = stream_coded (PyInt 1), iteration = OnePass\<rparr> (0, 0) =
     Inr (EmptyDict, \<lparr>current_step = 8, info = [''Geometry: building the point matrix...''],
            cancel_polls = []\<rparr>)
   \<and> get_geometry \<lparr>current_step = 0, info = [], cancel_polls = [False, True]\<rparr>
      \<lparr>getFeatures = stream_coded (PyInt 1), iteration = OnePass\<rparr> (0, 0) =
     Inr (EmptyDict, \<lparr>current_step = 9, info = [''Geometry: building the point matrix...'',
            ''Geometry: getting quad faces...''], cancel_polls = []\<rparr>)
   \<and> (\<exists>verts. get_geometry \<lparr>current_step = 0, info = [], cancel_polls = []\<rparr>
      \<lparr>getFeatures = stream_coded (PyInt 1), iteration = OnePass\<rparr> (0, 0) =
     Inr (Geometry verts
            [(1, 4, 2), (5, 2, 4), (2, 5, 3), (6, 3, 5), (4, 7, 5), (8, 5, 7), (5, 8, 6), (9, 6, 8)]
            (replicate 8 (PyInt 1)) {PyInt 1},
          \<lparr>current_step = 11, info = [''Geometry: building the point matrix...'',
            ''Geometry: getting quad faces...'', ''Geometry: getting verts...''],
            cancel_polls = []\<rparr>))"
proof -
  let ?layer = "\<lparr>getFeatures = stream_coded (PyInt 1), iteration = OnePass\<rparr>"
  let ?m = "[[(1, 1, 0, PyInt 1), (2, 1, 0, PyInt 1)], [(1, 2, 0, PyInt 1), (2, 2, 0, PyInt 1)]] :: matrix"
  let ?faces = "[(1, 4, 2), (5, 2, 4), (2, 5, 3), (6, 3, 5), (4, 7, 5), (8, 5, 7), (5, 8, 6), (9, 6, 8)] :: face list"
  have gm: "get_matrix ?layer (0, 0) = Inr ?m"
    by (simp add: stream_coded_def get_matrix_def sample_feature_def dot_product_def norm_vec_def float_sq_def float_mul_def landuse_of_def zip_star_def Let_def)
  have gf: "get_faces ?m = Inr (?faces, replicate 8 (PyInt 1))"
    by (simp add: get_faces_def get_f1_def get_f2_def get_vert_index_def landuse_def numeral_eq_Suc)
  obtain verts padded where gv: "get_verts ?m = Inr (verts, padded)"
    by (simp add: get_verts_def inject_ghost_centers_def and_then_def ghost_cols_def
      get_neighbour_centers_def upt_conv_Cons Let_def)
  have c1: "get_geometry \<lparr>current_step = 0, info = [], cancel_polls = [True]\<rparr> ?layer (0, 0) =
     Inr (EmptyDict, \<lparr>current_step = 8, info = [''Geometry: building the point matrix...''],
            cancel_polls = []\<rparr>)"
    using get_geometry_cancellation[OF gm, of "\<lparr>current_step = 0, info = [], cancel_polls = [True]\<rparr>"]
    by (simp add: isCanceled_def)
  have c2: "get_geometry \<lparr>current_step = 0, info = [], cancel_polls = [False, True]\<rparr> ?layer (0, 0) =
     Inr (EmptyDict, \<lparr>current_step = 9, info = [''Geometry: building the point matrix...'',
            ''Geometry: getting quad faces...''], cancel_polls = []\<rparr>)"
    using get_geometry_cancellation[OF gm,
        of "\<lparr>current_step = 0, info = [], cancel_polls = [False, True]\<rparr>" ?faces "replicate 8 (PyInt 1)"]
      gf
    by (simp add: isCanceled_def)
  have c3: "get_geometry \<lparr>current_step = 0, info = [], cancel_polls = []\<rparr> ?layer (0, 0) =
     Inr (Geometry verts ?faces (replicate 8 (PyInt 1)) {PyInt 1},
          \<lparr>current_step = 11, info = [''Geometry: building the point matrix...'',
            ''Geometry: getting quad faces...'', ''Geometry: getting verts...''],
            cancel_polls = []\<rparr>)"
    using get_geometry_cancellation[OF gm,
        of "\<lparr>current_step = 0, info = [], cancel_polls = []\<rparr>" ?faces "replicate 8 (PyInt 1)"
           verts padded]
      gf gv
    by (simp add: isCanceled_def)
  from c1 c2 c3 show ?thesis by blast
qed

end
